theory Spec2Isabelle
  imports Main
begin

section \<open>Data model of \<open>rag/main.py\<close>\<close>

text \<open>
  The script is a single pass: load documents, split them, index the chunks in an
  in-memory vector store, then run a two-node graph (retrieve, generate) on one
  hard-coded question. Everything the script itself computes is modelled below as it is
  written. The third-party components it calls (text splitter, vector store search,
  prompt template, generative model) are not part of the repository: they are taken as
  parameters, collected in the record \<open>library\<close>, and nothing is assumed about them
  unless a theorem says so in a hypothesis.
\<close>

text \<open>A \<open>Document\<close>: its text and its metadata dictionary (string keys and values).\<close>

record document =
  page_content :: string
  metadata :: "(string \<times> string) list"

text \<open>
  \<open>class State(TypedDict)\<close>: a dictionary with the keys \<open>question\<close>, \<open>context\<close> and
  \<open>answer\<close>. A key may be absent (the input of \<open>graph.invoke\<close> only holds \<open>question\<close>, and
  each node returns a dictionary with one key), so every field is optional: \<open>None\<close> is an
  absent key. The same record type serves for the partial dictionaries the nodes return.
\<close>

record state =
  question :: "string option"
  "context" :: "document list option"
  answer :: "string option"

datatype py_error = IndexError | KeyError string | ValueError string | GraphRecursionError

text \<open>
  The external components, as parameters. The vector store is modelled by the list of the
  documents added to it, in insertion order; \<open>similarity_search\<close> receives that list and
  the query text (the embedding of both happens inside the library).
\<close>

record 'm library =
  split_documents :: "document list \<Rightarrow> document list"
  similarity_search :: "document list \<Rightarrow> string \<Rightarrow> document list"
  prompt_invoke :: "string \<Rightarrow> string \<Rightarrow> 'm"
  llm_invoke :: "'m \<Rightarrow> string"

text \<open>
  What the run does to the outside world, in order: lines printed to standard output and
  calls to the external components with their arguments.
\<close>

datatype 'm event =
    Print string
  | Split_documents "document list"
  | Add_documents "document list"
  | Similarity_search string
  | Prompt_invoke string string
  | Llm_invoke 'm

section \<open>Python built-ins used by the script\<close>

text \<open>\<open>sep.join(items)\<close>: the items in order, with \<open>sep\<close> between consecutive items.\<close>

fun join :: "string \<Rightarrow> string list \<Rightarrow> string" where
  "join sep [] = []"
| "join sep [x] = x"
| "join sep (x # y # ys) = x @ sep @ join sep (y # ys)"

text \<open>\<open>str(n)\<close> for a non-negative integer, as an f-string renders \<open>{len(...)}\<close>.\<close>

definition digit_char :: "nat \<Rightarrow> char" where
  "digit_char d = ''0123456789'' ! d"

fun str_nat :: "nat \<Rightarrow> string" where
  "str_nat n = (if n < 10 then [digit_char n] else str_nat (n div 10) @ [digit_char (n mod 10)])"

declare str_nat.simps [simp del]

text \<open>\<open>xs[0]\<close>: raises \<open>IndexError\<close> on an empty list.\<close>

definition index0 :: "'a list \<Rightarrow> py_error + 'a" where
  "index0 xs = (case xs of [] \<Rightarrow> Inl IndexError | x # _ \<Rightarrow> Inr x)"

section \<open>The pipeline stages\<close>

text \<open>The two newline characters of the literal \<open>"\n\n"\<close>.\<close>

definition blank_line :: string where
  "blank_line = [CHR 0x0A, CHR 0x0A]"

text \<open>
  \<open>def retrieve(state)\<close>: reads \<open>state["question"]\<close> (a \<open>KeyError\<close> when absent), searches
  the global vector store and returns the dictionary \<open>{"context": retrieved_docs}\<close>.
\<close>

definition retrieve ::
  "'m library \<Rightarrow> document list \<Rightarrow> state \<Rightarrow> 'm event list \<times> (py_error + state)" where
  "retrieve lib vector_store st =
     (case question st of
        None \<Rightarrow> ([], Inl (KeyError ''question''))
      | Some q \<Rightarrow>
          (let retrieved_docs = similarity_search lib vector_store q
           in ([Similarity_search q],
               Inr \<lparr>question = None, context = Some retrieved_docs, answer = None\<rparr>)))"

text \<open>
  \<open>def generate(state)\<close>: joins the page contents of \<open>state["context"]\<close> with a blank
  line, renders the prompt with \<open>state["question"]\<close> and that text, calls the model and
  returns \<open>{"answer": response}\<close>. The context is read first, then the question.
\<close>

definition generate :: "'m library \<Rightarrow> state \<Rightarrow> 'm event list \<times> (py_error + state)" where
  "generate lib st =
     (case context st of
        None \<Rightarrow> ([], Inl (KeyError ''context''))
      | Some ctx \<Rightarrow>
          (let docs_content = join blank_line (map page_content ctx)
           in (case question st of
                 None \<Rightarrow> ([], Inl (KeyError ''question''))
               | Some q \<Rightarrow>
                   (let messages = prompt_invoke lib q docs_content;
                        response = llm_invoke lib messages
                    in ([Prompt_invoke q docs_content, Llm_invoke messages],
                        Inr \<lparr>question = None, context = None, answer = Some response\<rparr>)))))"

section \<open>The graph\<close>

text \<open>
  A state graph is its named nodes and its directed edges. \<open>add_sequence\<close> adds the given
  nodes (named after the functions) and an edge between each node and the next;
  \<open>add_edge\<close> adds one edge. \<open>START\<close> is the entry point.
\<close>

type_synonym 'm node_fn = "state \<Rightarrow> 'm event list \<times> (py_error + state)"

record 'm state_graph =
  nodes :: "(string \<times> 'm node_fn) list"
  edges :: "(string \<times> string) list"

definition START :: string where
  "START = ''__start__''"

definition StateGraph :: "'m state_graph" where
  "StateGraph = \<lparr>nodes = [], edges = []\<rparr>"

definition add_sequence :: "'m state_graph \<Rightarrow> (string \<times> 'm node_fn) list \<Rightarrow> 'm state_graph" where
  "add_sequence g fs =
     g\<lparr>nodes := nodes g @ fs, edges := edges g @ zip (map fst fs) (tl (map fst fs))\<rparr>"

definition add_edge :: "'m state_graph \<Rightarrow> string \<Rightarrow> string \<Rightarrow> 'm state_graph" where
  "add_edge g a b = g\<lparr>edges := edges g @ [(a, b)]\<rparr>"

text \<open>Lines 67 and 68 of the script.\<close>

definition graph_builder :: "'m library \<Rightarrow> document list \<Rightarrow> 'm state_graph" where
  "graph_builder lib vector_store =
     add_edge
       (add_sequence StateGraph
          [(''retrieve'', retrieve lib vector_store), (''generate'', generate lib)])
       START ''retrieve''"

text \<open>
  A node's returned dictionary is merged into the state: the keys it holds overwrite the
  state's, the others stay as they are.
\<close>

definition merge :: "state \<Rightarrow> state \<Rightarrow> state" where
  "merge st upd =
     \<lparr>question = (case question upd of None \<Rightarrow> question st | Some v \<Rightarrow> Some v),
      context = (case context upd of None \<Rightarrow> context st | Some v \<Rightarrow> Some v),
      answer = (case answer upd of None \<Rightarrow> answer st | Some v \<Rightarrow> Some v)\<rparr>"

text \<open>
  Running the graph from node \<open>n\<close>: follow the edge leaving \<open>n\<close>, run the node it leads
  to, merge its result, and go on from there; stop at a node no edge leaves. The graph
  of this script has at most one edge out of each node, so the first one is followed.
  The counter bounds the number of steps, as the library's recursion limit (25) does.
\<close>

definition successors :: "'m state_graph \<Rightarrow> string \<Rightarrow> string list" where
  "successors g n = map snd (filter (\<lambda>e. fst e = n) (edges g))"

fun run :: "nat \<Rightarrow> 'm state_graph \<Rightarrow> string \<Rightarrow> state \<Rightarrow> 'm event list \<times> (py_error + state)" where
  "run 0 g n st = ([], Inl GraphRecursionError)"
| "run (Suc fuel) g n st =
     (case successors g n of
        [] \<Rightarrow> ([], Inr st)
      | m # _ \<Rightarrow>
          (case map_of (nodes g) m of
             None \<Rightarrow> ([], Inl (ValueError m))
           | Some f \<Rightarrow>
               (case f st of
                  (ev, Inl e) \<Rightarrow> (ev, Inl e)
                | (ev, Inr upd) \<Rightarrow>
                    (case run fuel g m (merge st upd) of (ev', r) \<Rightarrow> (ev @ ev', r)))))"

definition invoke :: "'m state_graph \<Rightarrow> state \<Rightarrow> 'm event list \<times> (py_error + state)" where
  "invoke g input = run 25 g START input"

section \<open>The script\<close>

definition the_question :: string where
  "the_question = ''What are some username passwords?''"

text \<open>Line 39: \<open>all_docs = web_docs + file_docs\<close>.\<close>

definition all_docs :: "document list \<Rightarrow> document list \<Rightarrow> document list" where
  "all_docs web_docs file_docs = web_docs @ file_docs"

text \<open>\<open>vector_store.add_documents\<close>: the store grows by the documents, in order.\<close>

definition add_documents :: "document list \<Rightarrow> document list \<Rightarrow> document list" where
  "add_documents vector_store docs = vector_store @ docs"

text \<open>
  The whole script, from the results of the two loaders on: the events of the run and
  how it ends (\<open>Inr ()\<close> for a normal exit, \<open>Inl e\<close> for an uncaught exception).
\<close>

definition main ::
  "'m library \<Rightarrow> document list \<Rightarrow> document list \<Rightarrow> 'm event list \<times> (py_error + unit)" where
  "main lib web_docs file_docs =
     (let out1 = [Print (''Loaded '' @ str_nat (length web_docs) @ '' web documents.'')];
          docs = all_docs web_docs file_docs
      in (case index0 docs of
            Inl e \<Rightarrow> (out1, Inl e)
          | Inr d0 \<Rightarrow>
              (let out2 = [Print (''Total characters: '' @ str_nat (length (page_content d0)))];
                   all_splits = split_documents lib docs;
                   vector_store = add_documents [] all_splits;
                   graph = graph_builder lib vector_store
               in (case invoke graph \<lparr>question = Some the_question, context = None, answer = None\<rparr> of
                     (ev, Inl e) \<Rightarrow>
                       (out1 @ out2 @ [Split_documents docs, Add_documents all_splits] @ ev, Inl e)
                   | (ev, Inr response) \<Rightarrow>
                       (case answer response of
                          None \<Rightarrow>
                            (out1 @ out2 @ [Split_documents docs, Add_documents all_splits] @ ev,
                             Inl (KeyError ''answer''))
                        | Some a \<Rightarrow>
                            (out1 @ out2 @ [Split_documents docs, Add_documents all_splits] @ ev
                               @ [Print a],
                             Inr ()))))))"

text \<open>The lines printed by a run, in order.\<close>

fun printed :: "'m event list \<Rightarrow> string list" where
  "printed [] = []"
| "printed (Print s # es) = s # printed es"
| "printed (_ # es) = printed es"

section \<open>The context text, in the words of the specification\<close>

text \<open>
  The specification describes the context text as the retrieved chunks' contents in
  order, with a blank line between chunks: the first chunk's content, then every later
  chunk's content preceded by a blank line. This definition follows those words; the
  script's own computation is \<open>join blank_line (map page_content ctx)\<close> in \<open>generate\<close>.
\<close>

definition spec_context_text :: "document list \<Rightarrow> string" where
  "spec_context_text cs =
     (case cs of
        [] \<Rightarrow> []
      | c # rest \<Rightarrow> page_content c @ concat (map (\<lambda>d. blank_line @ page_content d) rest))"

section \<open>A concrete instance\<close>

text \<open>
  A small instance of the external components, on which the theorems below are
  exercised: the splitter returns the documents as they are, the search returns the
  first four stored documents, the prompt is a one-line template and the model always
  gives the same answer.
\<close>

definition example_library :: "string library" where
  "example_library =
     \<lparr>split_documents = (\<lambda>ds. ds),
      similarity_search = (\<lambda>docs q. take 4 docs),
      prompt_invoke = (\<lambda>q c. ''Question: '' @ q @ '' Context: '' @ c),
      llm_invoke = (\<lambda>m. ''I do not know.'')\<rparr>"

definition doc :: "string \<Rightarrow> document" where
  "doc s = \<lparr>page_content = s, metadata = []\<rparr>"

section \<open>Running the graph of the script\<close>

lemma successors_START: "successors (graph_builder lib vs) START = [''retrieve'']"
  by (simp add: successors_def graph_builder_def add_edge_def add_sequence_def
      StateGraph_def START_def)

lemma successors_retrieve: "successors (graph_builder lib vs) ''retrieve'' = [''generate'']"
  by (simp add: successors_def graph_builder_def add_edge_def add_sequence_def
      StateGraph_def START_def)

lemma successors_generate: "successors (graph_builder lib vs) ''generate'' = []"
  by (simp add: successors_def graph_builder_def add_edge_def add_sequence_def
      StateGraph_def START_def)

lemma node_retrieve:
  "map_of (nodes (graph_builder lib vs)) ''retrieve'' = Some (retrieve lib vs)"
  by (simp add: graph_builder_def add_edge_def add_sequence_def StateGraph_def)

lemma node_generate:
  "map_of (nodes (graph_builder lib vs)) ''generate'' = Some (generate lib)"
  by (simp add: graph_builder_def add_edge_def add_sequence_def StateGraph_def)

text \<open>Three steps are enough: enter at \<open>START\<close>, run \<open>retrieve\<close>, run \<open>generate\<close>.\<close>

lemma run_graph:
  assumes "question st = Some q"
  shows "run (Suc (Suc (Suc n))) (graph_builder lib vs) START st =
     ([Similarity_search q,
       Prompt_invoke q (join blank_line (map page_content (similarity_search lib vs q))),
       Llm_invoke (prompt_invoke lib q
         (join blank_line (map page_content (similarity_search lib vs q))))],
      Inr \<lparr>question = Some q, context = Some (similarity_search lib vs q),
           answer = Some (llm_invoke lib (prompt_invoke lib q
              (join blank_line (map page_content (similarity_search lib vs q)))))\<rparr>)"
  using assms
  by (simp add: successors_START successors_retrieve successors_generate node_retrieve
      node_generate retrieve_def generate_def merge_def Let_def)

lemma invoke_graph:
  assumes "question st = Some q"
  shows "invoke (graph_builder lib vs) st =
     ([Similarity_search q,
       Prompt_invoke q (join blank_line (map page_content (similarity_search lib vs q))),
       Llm_invoke (prompt_invoke lib q
         (join blank_line (map page_content (similarity_search lib vs q))))],
      Inr \<lparr>question = Some q, context = Some (similarity_search lib vs q),
           answer = Some (llm_invoke lib (prompt_invoke lib q
              (join blank_line (map page_content (similarity_search lib vs q)))))\<rparr>)"
proof -
  have "(25::nat) = Suc (Suc (Suc 22))" by simp
  then show ?thesis unfolding invoke_def using run_graph [OF assms] by metis
qed

section \<open>Running the script\<close>

lemma str_nat_0: "str_nat 0 = ''0''"
  by (simp add: str_nat.simps digit_char_def)

lemma main_empty: "main lib [] [] = ([Print ''Loaded 0 web documents.''], Inl IndexError)"
  by (simp add: main_def all_docs_def index0_def str_nat_0)

lemma main_nonempty:
  assumes "web_docs @ file_docs = d0 # rest"
  shows "main lib web_docs file_docs =
     ([Print (''Loaded '' @ str_nat (length web_docs) @ '' web documents.''),
       Print (''Total characters: '' @ str_nat (length (page_content d0))),
       Split_documents (web_docs @ file_docs),
       Add_documents (split_documents lib (web_docs @ file_docs)),
       Similarity_search the_question,
       Prompt_invoke the_question
         (join blank_line (map page_content
            (similarity_search lib (split_documents lib (web_docs @ file_docs)) the_question))),
       Llm_invoke (prompt_invoke lib the_question
         (join blank_line (map page_content
            (similarity_search lib (split_documents lib (web_docs @ file_docs)) the_question)))),
       Print (llm_invoke lib (prompt_invoke lib the_question
         (join blank_line (map page_content
            (similarity_search lib (split_documents lib (web_docs @ file_docs)) the_question)))))],
      Inr ())"
proof -
  have q: "question \<lparr>question = Some the_question, context = None, answer = None\<rparr>
             = Some the_question"
    by simp
  show ?thesis
    using assms
    by (simp add: main_def all_docs_def index0_def add_documents_def Let_def invoke_graph [OF q])
qed

section \<open>Joining\<close>

lemma join_cons: "join sep (x # xs) = x @ concat (map (\<lambda>y. sep @ y) xs)"
  by (induction xs arbitrary: x) simp_all

lemma join_spec_context_text: "join blank_line (map page_content cs) = spec_context_text cs"
  by (cases cs) (simp_all add: spec_context_text_def join_cons comp_def)

section \<open>The context text handed to the prompt\<close>

text \<open>
  C3. For every state that holds a question and a context, the text that \<open>generate\<close> passes
  to the prompt template is the contents of the context's chunks, in their order, with a
  blank line between consecutive chunks; the model is then called on the rendered
  prompt. In a run of the graph the context is the result of the search, so the prompt
  receives the joined contents of the chunks in the order the search returned them.
\<close>

theorem generate_context_text:
  assumes "question st = Some q" and "context st = Some ctx"
  shows "fst (generate lib st) =
           [Prompt_invoke q (spec_context_text ctx),
            Llm_invoke (prompt_invoke lib q (spec_context_text ctx))]
         \<and> fst (invoke (graph_builder lib vector_store) st) =
           [Similarity_search q,
            Prompt_invoke q (spec_context_text (similarity_search lib vector_store q)),
            Llm_invoke (prompt_invoke lib q
              (spec_context_text (similarity_search lib vector_store q)))]"
  using assms by (simp add: generate_def Let_def join_spec_context_text invoke_graph)

theorem generate_context_text_witness:
  "fst (generate example_library
          \<lparr>question = Some ''q'', context = Some [doc ''ab'', doc ''c'', doc ''de''],
           answer = None\<rparr>) =
     [Prompt_invoke ''q'' (''ab'' @ blank_line @ ''c'' @ blank_line @ ''de''),
      Llm_invoke (''Question: q Context: '' @ ''ab'' @ blank_line @ ''c'' @ blank_line @ ''de'')]"
  using generate_context_text
    [of "\<lparr>question = Some ''q'', context = Some [doc ''ab'', doc ''c'', doc ''de''],
          answer = None\<rparr>"
      "''q''" "[doc ''ab'', doc ''c'', doc ''de'']" example_library "[]"]
  by (simp add: spec_context_text_def doc_def example_library_def)

section \<open>The two stages and their frame\<close>

text \<open>
  C4. The pipeline is a two-stage unconditional sequence. For every state with the
  question set: \<open>retrieve\<close> returns a dictionary holding only \<open>context\<close> (the chunks the search
  returns for the question), so merging it changes the context and leaves question and
  answer as they were; \<open>generate\<close> returns a dictionary holding only \<open>answer\<close>, so merging it
  changes the answer and leaves question and context as they were. The graph has the
  two nodes retrieve and generate and the two edges START to retrieve and retrieve to
  generate, hence no branch, no cycle and no edge out of generate. An invocation ends in
  the input state with context and answer set, and its result depends on the question
  only: whatever else the input state holds (a context or an answer left from an earlier
  invocation) has no influence.
\<close>

theorem pipeline_two_stage_frame:
  assumes "question st = Some q"
  shows "retrieve lib vector_store st =
           ([Similarity_search q],
            Inr \<lparr>question = None, context = Some (similarity_search lib vector_store q),
                 answer = None\<rparr>)
         \<and> merge st \<lparr>question = None, context = Some docs, answer = None\<rparr>
             = st\<lparr>context := Some docs\<rparr>
         \<and> snd (generate lib (st\<lparr>context := Some docs\<rparr>)) =
             Inr \<lparr>question = None, context = None,
                  answer = Some (llm_invoke lib (prompt_invoke lib q
                    (join blank_line (map page_content docs))))\<rparr>
         \<and> merge st' \<lparr>question = None, context = None, answer = Some a\<rparr>
             = st'\<lparr>answer := Some a\<rparr>
         \<and> map fst (nodes (graph_builder lib vector_store)) = [''retrieve'', ''generate'']
         \<and> edges (graph_builder lib vector_store)
             = [(''retrieve'', ''generate''), (START, ''retrieve'')]
         \<and> snd (invoke (graph_builder lib vector_store) st) =
             Inr (st\<lparr>context := Some (similarity_search lib vector_store q),
                     answer := Some (llm_invoke lib (prompt_invoke lib q
                       (join blank_line (map page_content
                          (similarity_search lib vector_store q)))))\<rparr>)
         \<and> (question st2 = Some q \<longrightarrow>
              invoke (graph_builder lib vector_store) st2
                = invoke (graph_builder lib vector_store) st)"
proof -
  have r: "retrieve lib vector_store st =
           ([Similarity_search q],
            Inr \<lparr>question = None, context = Some (similarity_search lib vector_store q),
                 answer = None\<rparr>)"
    using assms by (simp add: retrieve_def)
  have m1: "merge st \<lparr>question = None, context = Some docs, answer = None\<rparr>
             = st\<lparr>context := Some docs\<rparr>"
    by (simp add: merge_def)
  have g: "snd (generate lib (st\<lparr>context := Some docs\<rparr>)) =
             Inr \<lparr>question = None, context = None,
                  answer = Some (llm_invoke lib (prompt_invoke lib q
                    (join blank_line (map page_content docs))))\<rparr>"
    using assms by (simp add: generate_def Let_def)
  have m2: "merge st' \<lparr>question = None, context = None, answer = Some a\<rparr>
             = st'\<lparr>answer := Some a\<rparr>"
    by (simp add: merge_def)
  have n: "map fst (nodes (graph_builder lib vector_store)) = [''retrieve'', ''generate'']"
    by (simp add: graph_builder_def add_edge_def add_sequence_def StateGraph_def)
  have e: "edges (graph_builder lib vector_store)
             = [(''retrieve'', ''generate''), (START, ''retrieve'')]"
    by (simp add: graph_builder_def add_edge_def add_sequence_def StateGraph_def)
  have i: "snd (invoke (graph_builder lib vector_store) st) =
             Inr (st\<lparr>context := Some (similarity_search lib vector_store q),
                     answer := Some (llm_invoke lib (prompt_invoke lib q
                       (join blank_line (map page_content
                          (similarity_search lib vector_store q)))))\<rparr>)"
    using assms by (simp add: invoke_graph [OF assms])
  have d: "question st2 = Some q \<longrightarrow>
              invoke (graph_builder lib vector_store) st2
                = invoke (graph_builder lib vector_store) st"
  proof
    assume q2: "question st2 = Some q"
    show "invoke (graph_builder lib vector_store) st2
            = invoke (graph_builder lib vector_store) st"
      by (simp add: invoke_graph [OF assms] invoke_graph [OF q2])
  qed
  from r m1 g m2 n e i d show ?thesis by blast
qed

theorem pipeline_two_stage_frame_witness:
  "snd (invoke (graph_builder example_library [doc ''ab'', doc ''c''])
          \<lparr>question = Some ''q'', context = None, answer = None\<rparr>) =
     Inr \<lparr>question = Some ''q'', context = Some [doc ''ab'', doc ''c''],
          answer = Some ''I do not know.''\<rparr>
   \<and> invoke (graph_builder example_library [doc ''ab'', doc ''c''])
          \<lparr>question = Some ''q'', context = Some [doc ''old''], answer = Some ''stale''\<rparr> =
     invoke (graph_builder example_library [doc ''ab'', doc ''c''])
          \<lparr>question = Some ''q'', context = None, answer = None\<rparr>"
proof -
  have q: "question \<lparr>question = Some ''q'', context = None, answer = None\<rparr> = Some ''q''"
    by simp
  show ?thesis
    using pipeline_two_stage_frame [OF q,
        where lib = example_library and vector_store = "[doc ''ab'', doc ''c'']"
          and ?st2.0 = "\<lparr>question = Some ''q'', context = Some [doc ''old''],
                          answer = Some ''stale''\<rparr>"]
    by (simp add: example_library_def)
qed

section \<open>An empty vector store\<close>

text \<open>
  C7. When the vector store holds no chunk, \<open>retrieve\<close> yields an empty context, the
  context text handed to the prompt is the empty string, and \<open>generate\<close> still calls the
  model on the rendered prompt: the run of the graph is the search, the prompt with
  empty context and the model call, and it ends with an answer. The search is a
  parameter; what is asked of it is only that it returns chunks the store holds.
\<close>

theorem empty_store_still_generates:
  assumes "\<And>docs query. set (similarity_search lib docs query) \<subseteq> set docs"
  shows "retrieve lib [] \<lparr>question = Some q, context = None, answer = None\<rparr> =
           ([Similarity_search q], Inr \<lparr>question = None, context = Some [], answer = None\<rparr>)
         \<and> invoke (graph_builder lib []) \<lparr>question = Some q, context = None, answer = None\<rparr> =
           ([Similarity_search q, Prompt_invoke q [], Llm_invoke (prompt_invoke lib q [])],
            Inr \<lparr>question = Some q, context = Some [],
                 answer = Some (llm_invoke lib (prompt_invoke lib q []))\<rparr>)"
proof -
  have "set (similarity_search lib [] q) \<subseteq> set []" by (rule assms)
  then have e: "similarity_search lib [] q = []" by simp
  have qq: "question \<lparr>question = Some q, context = None, answer = None\<rparr> = Some q" by simp
  show ?thesis
    by (simp add: retrieve_def invoke_graph [OF qq] e)
qed

theorem empty_store_still_generates_witness:
  "invoke (graph_builder example_library [])
     \<lparr>question = Some ''q'', context = None, answer = None\<rparr> =
     ([Similarity_search ''q'', Prompt_invoke ''q'' [], Llm_invoke ''Question: q Context: ''],
      Inr \<lparr>question = Some ''q'', context = Some [], answer = Some ''I do not know.''\<rparr>)"
proof -
  have h: "\<And>docs query. set (similarity_search example_library docs query) \<subseteq> set docs"
    by (simp add: example_library_def set_take_subset)
  show ?thesis
    using empty_store_still_generates [of example_library "''q''", OF h]
    by (simp add: example_library_def)
qed

section \<open>The combined corpus\<close>

text \<open>
  C5. The corpus passed to the splitter is the web loader's documents followed by the
  file loader's documents: \<open>all_docs\<close> has the web documents at its first positions, in
  their order, and the file documents after them, in their order, so every web document
  stands before every file document; and the one call of the splitter in a run receives
  exactly this list (there is no call when no document was loaded, since the run stops
  before).
\<close>

theorem all_docs_web_first:
  "length (all_docs web_docs file_docs) = length web_docs + length file_docs
   \<and> (\<forall>i < length web_docs. all_docs web_docs file_docs ! i = web_docs ! i)
   \<and> (\<forall>j < length file_docs.
         all_docs web_docs file_docs ! (length web_docs + j) = file_docs ! j)
   \<and> [e \<leftarrow> fst (main lib web_docs file_docs). \<exists>ds. e = Split_documents ds]
       = (if web_docs = [] \<and> file_docs = [] then []
          else [Split_documents (all_docs web_docs file_docs)])"
proof -
  have idx: "length (all_docs web_docs file_docs) = length web_docs + length file_docs
   \<and> (\<forall>i < length web_docs. all_docs web_docs file_docs ! i = web_docs ! i)
   \<and> (\<forall>j < length file_docs.
         all_docs web_docs file_docs ! (length web_docs + j) = file_docs ! j)"
    by (simp add: all_docs_def nth_append)
  have call: "[e \<leftarrow> fst (main lib web_docs file_docs). \<exists>ds. e = Split_documents ds]
       = (if web_docs = [] \<and> file_docs = [] then []
          else [Split_documents (all_docs web_docs file_docs)])"
  proof (cases "web_docs @ file_docs")
    case Nil
    then show ?thesis by (simp add: main_empty)
  next
    case (Cons d0 rest)
    then have "\<not> (web_docs = [] \<and> file_docs = [])" by auto
    then show ?thesis by (simp add: main_nonempty [OF Cons] all_docs_def)
  qed
  from idx call show ?thesis by blast
qed

theorem all_docs_web_first_witness:
  "all_docs [doc ''w1'', doc ''w2''] [doc ''f1''] ! 0 = doc ''w1''
   \<and> all_docs [doc ''w1'', doc ''w2''] [doc ''f1''] ! 1 = doc ''w2''
   \<and> all_docs [doc ''w1'', doc ''w2''] [doc ''f1''] ! 2 = doc ''f1''
   \<and> [e \<leftarrow> fst (main example_library [doc ''w1'', doc ''w2''] [doc ''f1'']).
        \<exists>ds. e = Split_documents ds]
       = [Split_documents [doc ''w1'', doc ''w2'', doc ''f1'']]"
  using all_docs_web_first [of "[doc ''w1'', doc ''w2'']" "[doc ''f1'']" example_library]
  by (simp add: all_docs_def)

section \<open>Standard output\<close>

text \<open>
  C9. A complete run (one in which at least one document was loaded) prints exactly three
  lines, in this order: the count of loaded web documents, the character count of the
  first document of the combined sequence, and the generated answer, which is the
  model's response to the prompt rendered with the hard-coded question and the joined
  contents of the retrieved chunks. The run ends normally.
\<close>

theorem printed_output:
  assumes "web_docs @ file_docs \<noteq> []"
  shows "snd (main lib web_docs file_docs) = Inr ()
         \<and> printed (fst (main lib web_docs file_docs)) =
             [''Loaded '' @ str_nat (length web_docs) @ '' web documents.'',
              ''Total characters: ''
                @ str_nat (length (page_content (hd (all_docs web_docs file_docs)))),
              llm_invoke lib (prompt_invoke lib the_question
                (join blank_line (map page_content
                   (similarity_search lib (split_documents lib (all_docs web_docs file_docs))
                      the_question))))]"
proof -
  from assms obtain d0 rest where c: "web_docs @ file_docs = d0 # rest"
    by (cases "web_docs @ file_docs") auto
  show ?thesis
    by (simp add: main_nonempty [OF c] all_docs_def c)
qed

theorem printed_output_witness:
  "snd (main example_library [doc ''hello''] [doc ''a text file'']) = Inr ()
   \<and> printed (fst (main example_library [doc ''hello''] [doc ''a text file''])) =
       [''Loaded 1 web documents.'', ''Total characters: 5'', ''I do not know.'']"
proof -
  have h: "[doc ''hello''] @ [doc ''a text file''] \<noteq> []" by simp
  have s1: "str_nat (Suc 0) = ''1''" by (simp add: str_nat.simps digit_char_def)
  have s5: "str_nat (Suc (Suc (Suc (Suc (Suc 0))))) = ''5''"
    by (simp add: str_nat.simps digit_char_def)
  show ?thesis
    using printed_output [OF h, of example_library]
    by (simp add: all_docs_def doc_def example_library_def s1 s5)
qed

section \<open>An empty corpus\<close>

text \<open>
  C10. Startup needs a non-empty combined corpus. When both loaders return no document,
  the run prints the count of web documents and then fails with \<open>IndexError\<close> at
  \<open>all_docs[0]\<close>: nothing is split, nothing is indexed and the graph is not invoked.
  Reading the first element of the combined list fails exactly when both lists are
  empty and succeeds exactly when at least one document was loaded, and the run ends in
  \<open>IndexError\<close> in that case only.
\<close>

theorem empty_corpus_index_error:
  "main lib [] [] = ([Print ''Loaded 0 web documents.''], Inl IndexError)
   \<and> (index0 (all_docs web_docs file_docs) = Inl IndexError
        \<longleftrightarrow> web_docs = [] \<and> file_docs = [])
   \<and> ((\<exists>d. index0 (all_docs web_docs file_docs) = Inr d) \<longleftrightarrow> web_docs @ file_docs \<noteq> [])
   \<and> (snd (main lib web_docs file_docs) = Inl IndexError
        \<longleftrightarrow> web_docs = [] \<and> file_docs = [])"
proof -
  have a: "index0 (all_docs web_docs file_docs) = Inl IndexError
             \<longleftrightarrow> web_docs = [] \<and> file_docs = []"
    by (cases "web_docs @ file_docs") (auto simp: index0_def all_docs_def)
  have b: "(\<exists>d. index0 (all_docs web_docs file_docs) = Inr d) \<longleftrightarrow> web_docs @ file_docs \<noteq> []"
    by (cases "web_docs @ file_docs") (auto simp: index0_def all_docs_def)
  have c: "snd (main lib web_docs file_docs) = Inl IndexError
             \<longleftrightarrow> web_docs = [] \<and> file_docs = []"
  proof (cases "web_docs @ file_docs")
    case Nil
    then show ?thesis by (simp add: main_empty)
  next
    case (Cons d0 rest)
    then have "\<not> (web_docs = [] \<and> file_docs = [])" by auto
    then show ?thesis by (simp add: main_nonempty [OF Cons])
  qed
  from a b c show ?thesis by (simp add: main_empty)
qed

theorem empty_corpus_index_error_witness:
  "main example_library [] [] = ([Print ''Loaded 0 web documents.''], Inl IndexError)
   \<and> index0 (all_docs [] [doc ''f'']) = Inr (doc ''f'')
   \<and> snd (main example_library [] [doc ''f'']) \<noteq> Inl IndexError"
  using empty_corpus_index_error [of example_library "[]" "[doc ''f'']"]
    empty_corpus_index_error [of example_library "[]" "[]"]
  by (simp add: index0_def all_docs_def)

end
